theory Spec2Isabelle
  imports Main "HOL-Library.Word"
begin

section \<open>Mego: the dispatch engine of mego.go\<close>

text \<open>
  A shallow embedding of \<^verbatim>\<open>mego.go\<close>. Go maps are partial functions, a nil pointer or
  nil interface is \<open>None\<close>, and a pointer to an object that the file never copies is
  represented by the object's identity. The two slices that the file appends to
  (the \<^verbatim>\<open>handlers\<close> of the engine and of a context) are slice headers over arrays in
  an explicit memory, because \<^verbatim>\<open>append\<close> may write into an array that other slices
  share; a slice that the file only stores and reads (the handlers a caller passes to
  \<^verbatim>\<open>Register\<close> or \<^verbatim>\<open>NoMethod\<close>) is the list of its elements. What the file leaves to
  other packages (the msgpack codec, the melody transport, the UUID generator, the
  growth policy of \<^verbatim>\<open>append\<close>, the bodies of user handlers) is taken as a parameter.
  A field name that several structs share is written qualified (\<open>Engine.handlers\<close>,
  \<open>Context.handlers\<close>).
\<close>

subsection \<open>Status codes and errors\<close>

definition StatusOK :: int where "StatusOK = 0"
definition StatusProcessing :: int where "StatusProcessing = 1"
definition StatusNoChanges :: int where "StatusNoChanges = 2"
definition StatusFileNext :: int where "StatusFileNext = 10"
definition StatusFileAbort :: int where "StatusFileAbort = 11"
definition StatusError :: int where "StatusError = 51"
definition StatusFull :: int where "StatusFull = 52"
definition StatusExists :: int where "StatusExists = 53"
definition StatusInvalid :: int where "StatusInvalid = 54"
definition StatusNotFound :: int where "StatusNotFound = 55"
definition StatusNotAuthorized :: int where "StatusNotAuthorized = 56"
definition StatusNoPermission :: int where "StatusNoPermission = 57"
definition StatusUnimplemented :: int where "StatusUnimplemented = 58"
definition StatusTooManyRequests :: int where "StatusTooManyRequests = 59"
definition StatusResourceExhausted :: int where "StatusResourceExhausted = 60"
definition StatusBusy :: int where "StatusBusy = 61"
definition StatusFileRetry :: int where "StatusFileRetry = 70"
definition StatusFileEmpty :: int where "StatusFileEmpty = 71"
definition StatusFileTooLarge :: int where "StatusFileTooLarge = 72"

text \<open>The two error values of the package, and the one run-time panic the file can raise.\<close>

datatype error = ErrEventNotFound | ErrChannelNotFound

datatype panic = NilPointerDereference

subsection \<open>The transport and the codec, as the file uses them\<close>

type_synonym bytes = "8 word list"

text \<open>
  A \<^verbatim>\<open>*melody.Session\<close>: the connection it stands for (\<open>conn\<close>, its identity, the target
  of \<^verbatim>\<open>WriteBinary\<close>), the HTTP request that opened it, and the key/value store behind
  \<^verbatim>\<open>Set\<close> and \<^verbatim>\<open>Get\<close>. The only key this file stores is \<^verbatim>\<open>"ID"\<close>, a string, so
  the store holds strings.
\<close>

record melody_Session =
  conn :: nat
  Request :: string
  store :: "string \<rightharpoonup> string"

text \<open>
  Everything observable outside the engine: the frames written to connections, in
  order, and whatever state the user's handlers keep.
\<close>

record 'u World =
  written :: "(nat \<times> bytes) list"
  user :: 'u

definition WriteBinary :: "nat \<Rightarrow> bytes \<Rightarrow> 'u World \<Rightarrow> 'u World" where
  "WriteBinary c b w = w\<lparr>written := written w @ [(c, b)]\<rparr>"

text \<open>
  Modelled from the spec: the declarations of \<^verbatim>\<open>Request\<close>, \<^verbatim>\<open>Response\<close> and
  \<^verbatim>\<open>ResponseError\<close> are not in mego.go. The spec's envelopes are
  \<^verbatim>\<open>{method, id, params}\<close> and \<^verbatim>\<open>{id, status, message, event, result}\<close>; the fields
  below are the ones mego.go reads or sets, under the names it uses. A field that a
  struct literal leaves out has Go's zero value.
\<close>

record Request =
  Method :: string
  ID :: int
  Params :: bytes

record ResponseError =
  Code :: int
  Message :: string

record 'v Response =
  Error :: ResponseError
  Event :: string
  Result :: "'v option"

text \<open>
  The msgpack codec: decoding a frame into a \<^verbatim>\<open>Request\<close>, decoding a parameter payload
  into a \<^verbatim>\<open>map[string]interface{}\<close> (either fails with the error's message), and
  encoding a \<^verbatim>\<open>Response\<close> (mego.go discards the encoder's error).
\<close>

record 'v Codec =
  Unmarshal_Request :: "bytes \<Rightarrow> string + Request"
  Unmarshal_Keys :: "bytes \<Rightarrow> string + (string \<rightharpoonup> 'v)"
  Marshal :: "'v Response \<Rightarrow> bytes"

subsection \<open>Slices and their arrays\<close>

text \<open>
  The memory holds the arrays behind the slices: the array at address \<open>a\<close> is
  \<open>mem ! a\<close>, the cells written so far, and a new array gets the next address. A
  slice header is Go's: the array it points to, its length and its capacity. The
  slices here start at the first cell of their array, as every result of \<^verbatim>\<open>append\<close>
  does. The nil slice has length and capacity 0 and its pointer is never followed.
\<close>

type_synonym 'h Memory = "'h list list"

record Slice =
  ptr :: nat
  len :: nat
  cap :: nat

definition nil_slice :: Slice where
  "nil_slice = \<lparr>ptr = 0, len = 0, cap = 0\<rparr>"

definition array_at :: "'h Memory \<Rightarrow> nat \<Rightarrow> 'h list" where
  "array_at mem a = (if a < length mem then mem ! a else [])"

text \<open>The elements of a slice, read from the memory as it is now.\<close>

definition elems :: "'h Memory \<Rightarrow> Slice \<Rightarrow> 'h list" where
  "elems mem s = take (len s) (array_at mem (ptr s))"

text \<open>
  A slice is well formed in a memory when its elements are there: the length is
  within the capacity and within the cells written, and a slice with capacity points
  to an array of the memory. Every slice that \<^verbatim>\<open>append\<close> returns is well formed.
\<close>

definition wf_slice :: "'h Memory \<Rightarrow> Slice \<Rightarrow> bool" where
  "wf_slice mem s \<longleftrightarrow>
     len s \<le> cap s \<and> len s \<le> length (array_at mem (ptr s)) \<and>
     (cap s = 0 \<or> ptr s < length mem)"

text \<open>
  Go's \<^verbatim>\<open>append(s, xs...)\<close>. When the result fits the capacity of \<open>s\<close>, the new
  elements are written into the array of \<open>s\<close>, after its length, and the result
  points to the same array: every other slice over that array sees the cells change.
  Otherwise a new array is allocated, with the elements of \<open>s\<close> and then \<open>xs\<close>; its
  capacity is what the runtime chooses, \<open>grow\<close> of the old capacity and the length
  needed, and never less than that length.
\<close>

definition append_slice ::
  "(nat \<Rightarrow> nat \<Rightarrow> nat) \<Rightarrow> 'h Memory \<Rightarrow> Slice \<Rightarrow> 'h list \<Rightarrow> Slice \<times> 'h Memory" where
  "append_slice grow mem s xs =
     (let n = len s + length xs;
          old = array_at mem (ptr s)
      in if n \<le> cap s
         then (s\<lparr>len := n\<rparr>, mem[ptr s := take (len s) old @ xs @ drop n old])
         else (\<lparr>ptr = length mem, len = n, cap = max n (grow (cap s) n)\<rparr>,
               mem @ [elems mem s @ xs]))"

subsection \<open>The engine's data\<close>

text \<open>
  Modelled from the spec: the declaration of \<^verbatim>\<open>Session\<close> is not in mego.go. The fields
  are those mego.go sets (\<^verbatim>\<open>ID\<close>, \<^verbatim>\<open>websocket\<close>, \<^verbatim>\<open>Keys\<close>); \<open>websocket\<close> points to the
  transport session and is represented by that connection's identity.
\<close>

record 'v Session =
  ID :: string
  websocket :: nat
  Keys :: "string \<rightharpoonup> 'v"

text \<open>
  Modelled from the spec: the declarations of \<^verbatim>\<open>Event\<close> and \<^verbatim>\<open>Channel\<close> are not in
  mego.go. An event has a name and a map from channel names to channels; a channel
  holds its subscribed sessions, which \<^verbatim>\<open>Emit\<close> ranges over. Of a subscribed
  session \<^verbatim>\<open>Emit\<close> uses only the connection it writes to.
\<close>

record 'v Channel =
  Name :: string
  Sessions :: "'v Session list"

record 'v Event =
  Name :: string
  Channels :: "string \<rightharpoonup> 'v Channel"

record EngineOption =
  MaxSize :: int
  MaxChunkSize :: int
  MaxFileSize :: int
  MaxSessions :: int
  CheckInterval :: int

record MethodOption =
  MaxSize :: int
  MaxChunkSize :: int
  MaxFileSize :: int

text \<open>
  Modelled from the spec: the interface \<^verbatim>\<open>ChunkProcessor\<close> and the struct
  \<^verbatim>\<open>DefaultChunkProcessor\<close> are not in mego.go. A processor is given a chunk and
  succeeds or fails; the default one buffers every chunk it is given.
\<close>

type_synonym ChunkProcessor = "bytes \<Rightarrow> bool"

definition DefaultChunkProcessor :: ChunkProcessor where
  "DefaultChunkProcessor = (\<lambda>chunk. True)"

text \<open>
  A handler is a value of type \<open>'h\<close>: the file stores handlers, appends them and
  calls them, and what a call does is the parameter \<open>call\<close> of \<open>messageHandler\<close>.
  \<^verbatim>\<open>Register\<close> stores the slice its caller passed and the file only reads it, so
  \<open>Handlers\<close> is the list of its elements.
\<close>

record 'h Method =
  Name :: string
  Handlers :: "'h list"
  Processor :: "ChunkProcessor option"
  Option :: "MethodOption option"

text \<open>
  Modelled from the spec: the declaration of \<^verbatim>\<open>Context\<close> is not in mego.go. The fields
  are those of the struct literal in \<^verbatim>\<open>messageHandler\<close>; \<open>handlers\<close> is a slice,
  first the engine's own and then the result of \<^verbatim>\<open>append\<close>.
\<close>

record ('v, 'h) Context =
  Session :: "'v Session"
  Method :: "'h Method"
  ID :: int
  Request :: string
  data :: bytes
  handlers :: Slice

text \<open>
  The engine. \<open>handlers\<close> is the slice that \<^verbatim>\<open>Use\<close> appends to; \<open>noMethod\<close> is the
  slice \<^verbatim>\<open>NoMethod\<close> was passed, which the file only stores. \<open>websocket\<close> is the melody
  instance that \<^verbatim>\<open>Run\<close> stores; \<open>True\<close> once it is set.
\<close>

record ('v, 'h) Engine =
  Sessions :: "string \<rightharpoonup> 'v Session"
  Events :: "string \<rightharpoonup> 'v Event"
  Methods :: "string \<rightharpoonup> 'h Method"
  Option :: "EngineOption option"
  handlers :: Slice
  noMethod :: "'h list"
  websocket :: bool

subsection \<open>Constructors and registration\<close>

definition New :: "('v, 'h) Engine" where
  "New = \<lparr>Engine.Sessions = Map.empty, Events = Map.empty, Methods = Map.empty,
          Option = None, handlers = nil_slice, noMethod = [], websocket = False\<rparr>"

definition Default :: "('v, 'h) Engine" where
  "Default = \<lparr>Engine.Sessions = Map.empty, Events = Map.empty, Methods = Map.empty,
              Option = None, handlers = nil_slice, noMethod = [], websocket = False\<rparr>"

definition HandleRequest :: "('v, 'h) Engine \<Rightarrow> ('v, 'h) Engine" where
  "HandleRequest e = e"

definition HandleConnect :: "('v, 'h) Engine \<Rightarrow> ('v, 'h) Engine" where
  "HandleConnect e = e"

text \<open>The hook is a parameter of \<^verbatim>\<open>HandleSubscribe\<close>; the body returns the engine.\<close>

definition HandleSubscribe ::
  "('v, 'h) Engine \<Rightarrow> (string \<Rightarrow> string \<Rightarrow> ('v, 'h) Context \<Rightarrow> bool) \<Rightarrow> ('v, 'h) Engine" where
  "HandleSubscribe e handler = e"

text \<open>
  \<^verbatim>\<open>Use\<close> appends to the engine's slice: in place when the slice has the capacity, into
  a new array otherwise. The memory after the call is returned with the engine.
\<close>

definition Use ::
  "(nat \<Rightarrow> nat \<Rightarrow> nat) \<Rightarrow> ('v, 'h) Engine \<Rightarrow> 'h list \<Rightarrow> 'h Memory \<Rightarrow>
   ('v, 'h) Engine \<times> 'h Memory" where
  "Use grow e hs mem =
     (case append_slice grow mem (Engine.handlers e) hs of
        (s', mem') \<Rightarrow> (e\<lparr>Engine.handlers := s'\<rparr>, mem'))"

definition Len :: "('v, 'h) Engine \<Rightarrow> int" where
  "Len e = int (card (dom (Engine.Sessions e)))"

definition NoMethod :: "('v, 'h) Engine \<Rightarrow> 'h list \<Rightarrow> ('v, 'h) Engine" where
  "NoMethod e handler = e\<lparr>noMethod := handler\<rparr>"

definition Event :: "('v, 'h) Engine \<Rightarrow> string \<Rightarrow> ('v, 'h) Engine" where
  "Event e name =
     e\<lparr>Events := (Events e)(name \<mapsto> \<lparr>Event.Name = name, Channels = Map.empty\<rparr>)\<rparr>"

text \<open>\<^verbatim>\<open>Register\<close> returns the method it stored, and the engine holds it afterwards.\<close>

definition Register ::
  "('v, 'h) Engine \<Rightarrow> string \<Rightarrow> 'h list \<Rightarrow> 'h Method \<times> ('v, 'h) Engine" where
  "Register e method handler =
     (let m = \<lparr>Method.Name = method, Handlers = handler, Processor = None, Option = None\<rparr>
      in (m, e\<lparr>Methods := (Methods e)(method \<mapsto> m)\<rparr>))"

text \<open>
  \<^verbatim>\<open>ReceiveWith\<close> sets the processor through the pointer \<^verbatim>\<open>Register\<close> returned, so the
  method stored in the engine changes with it.
\<close>

definition ReceiveWith ::
  "('v, 'h) Engine \<Rightarrow> string \<Rightarrow> ChunkProcessor \<Rightarrow> 'h list \<Rightarrow> 'h Method \<times> ('v, 'h) Engine" where
  "ReceiveWith e method processor handler =
     (case Register e method handler of
        (m, e') \<Rightarrow>
          (let m' = m\<lparr>Processor := Some processor\<rparr>
           in (m', e'\<lparr>Methods := (Methods e')(method \<mapsto> m')\<rparr>)))"

definition Receive ::
  "('v, 'h) Engine \<Rightarrow> string \<Rightarrow> 'h list \<Rightarrow> 'h Method \<times> ('v, 'h) Engine" where
  "Receive e method handler = ReceiveWith e method DefaultChunkProcessor handler"

subsection \<open>Connections\<close>

text \<open>
  \<^verbatim>\<open>connectHandler\<close>. The identifier is what \<^verbatim>\<open>uuid.NewV4().String()\<close> returned, a
  parameter here. The handler changes the transport session (it stores the identifier
  under \<^verbatim>\<open>"ID"\<close>) and the engine (it stores a new \<^verbatim>\<open>Session\<close> under the
  identifier); both are returned.
\<close>

definition connectHandler ::
  "('v, 'h) Engine \<Rightarrow> melody_Session \<Rightarrow> string \<Rightarrow> ('v, 'h) Engine \<times> melody_Session" where
  "connectHandler e s uid =
     (let s' = s\<lparr>store := (store s)(''ID'' \<mapsto> uid)\<rparr>
      in (e\<lparr>Engine.Sessions := (Engine.Sessions e)
              (uid \<mapsto> \<lparr>Session.ID = uid, websocket = conn s, Keys = Map.empty\<rparr>)\<rparr>, s'))"

text \<open>
  \<^verbatim>\<open>Run\<close> creates the melody instance, stores it in the engine, registers
  \<^verbatim>\<open>messageHandler\<close> for messages and \<^verbatim>\<open>connectHandler\<close> for connects, and serves.
  It registers nothing for disconnects, and melody's handler for them then does
  nothing. The server below is the engine together with melody's set of open
  connections; a notification is what the transport reports.
\<close>

record ('v, 'h) Server =
  engine :: "('v, 'h) Engine"
  connections :: "melody_Session list"

datatype notification =
  Connect nat string string
| Disconnect nat

definition Run :: "('v, 'h) Engine \<Rightarrow> ('v, 'h) Server" where
  "Run e = \<lparr>engine = e\<lparr>Engine.websocket := True\<rparr>, connections = []\<rparr>"

text \<open>
  \<open>Connect c r u\<close>: connection \<open>c\<close> opens with HTTP request \<open>r\<close>, and the UUID drawn for
  it is \<open>u\<close>. \<open>Disconnect c\<close>: connection \<open>c\<close> closes; melody forgets it and calls no
  function of the engine.
\<close>

fun notify :: "('v, 'h) Server \<Rightarrow> notification \<Rightarrow> ('v, 'h) Server" where
  "notify sv (Connect c r u) =
     (case connectHandler (engine sv) \<lparr>conn = c, Request = r, store = Map.empty\<rparr> u of
        (e', s') \<Rightarrow> sv\<lparr>engine := e', connections := connections sv @ [s']\<rparr>)"
| "notify sv (Disconnect c) =
     sv\<lparr>connections := filter (\<lambda>s. conn s \<noteq> c) (connections sv)\<rparr>"

subsection \<open>Dispatch\<close>

text \<open>
  Modelled from the spec: the method of \<^verbatim>\<open>Context\<close> by which a handler advances is not
  in mego.go. The spec has a cursor into the chain; the chain does not advance by
  itself when a handler returns; a handler advances explicitly or stops the chain by
  not advancing; advancing past the end does nothing. \<open>call h ctx w\<close> is what running
  handler \<open>h\<close> on context \<open>ctx\<close> does to the world, and whether \<open>h\<close> advances.
  \<open>run_handler call mem ctx i w\<close> runs the handler at cursor \<open>i\<close>, and the next one
  when it advances. The chain is read from the memory, where the slice of the context
  points.
\<close>

function run_handler ::
  "('h \<Rightarrow> ('v, 'h) Context \<Rightarrow> 'u World \<Rightarrow> 'u World \<times> bool) \<Rightarrow> 'h Memory \<Rightarrow>
   ('v, 'h) Context \<Rightarrow> nat \<Rightarrow> 'u World \<Rightarrow> 'u World" where
  "run_handler call mem ctx i w =
     (if i < length (elems mem (Context.handlers ctx)) then
        (case call (elems mem (Context.handlers ctx) ! i) ctx w of
           (w', advance) \<Rightarrow> if advance then run_handler call mem ctx (Suc i) w' else w')
      else w)"
  by pat_completeness auto
termination
  by (relation "measure (\<lambda>(call, mem, ctx, i, w).
        length (elems mem (Context.handlers ctx)) - i)") auto

declare run_handler.simps [simp del]

text \<open>
  Lines 222 to 230 of \<^verbatim>\<open>messageHandler\<close>, and again the first case of its switch:
  the parameters are decoded into a map, and when that succeeds the map is assigned to
  the session's \<^verbatim>\<open>Keys\<close>. The session is the object the engine holds under \<open>uid\<close>.
\<close>

definition initialize ::
  "'v Codec \<Rightarrow> ('v, 'h) Engine \<Rightarrow> string \<Rightarrow> 'v Session \<Rightarrow> Request \<Rightarrow> ('v, 'h) Engine" where
  "initialize cd e uid sess req =
     (case Unmarshal_Keys cd (Params req) of
        Inr keys \<Rightarrow> e\<lparr>Engine.Sessions := (Engine.Sessions e)(uid \<mapsto> sess\<lparr>Keys := keys\<rparr>)\<rparr>
      | Inl err \<Rightarrow> e)"

text \<open>
  Lines 250 to 271. The branch for a method that is not registered is empty, so
  \<^verbatim>\<open>method\<close> stays nil and \<^verbatim>\<open>method.Handlers\<close> dereferences it: the call
  panics before anything is appended and before any handler runs. For a registered
  method the context starts with the engine's own slice header, and
  \<^verbatim>\<open>append(ctx.handlers, method.Handlers...)\<close> then writes the method's handlers into
  the engine's array when that array has the spare capacity: the engine's slice keeps
  its length, and the contexts of other requests that point to the same array see
  their cells after that length overwritten. The result is the panic, if any, and the
  memory and the world after the call.
\<close>

definition dispatch ::
  "(nat \<Rightarrow> nat \<Rightarrow> nat) \<Rightarrow> ('h \<Rightarrow> ('v, 'h) Context \<Rightarrow> 'u World \<Rightarrow> 'u World \<times> bool) \<Rightarrow>
   ('v, 'h) Engine \<Rightarrow> melody_Session \<Rightarrow> 'v Session \<Rightarrow> Request \<Rightarrow> 'h Memory \<Rightarrow> 'u World \<Rightarrow>
   panic option \<times> 'h Memory \<times> 'u World" where
  "dispatch grow call e s sess req mem w =
     (case Methods e (Request.Method req) of
        None \<Rightarrow> (Some NilPointerDereference, mem, w)
      | Some method \<Rightarrow>
          (let ctx = \<lparr>Context.Session = sess, Method = method, ID = Request.ID req,
                      Request = melody_Session.Request s, data = Params req,
                      handlers = Engine.handlers e\<rparr>
           in case append_slice grow mem (Context.handlers ctx) (Handlers method) of
                (hs, mem') \<Rightarrow>
                  (let ctx = ctx\<lparr>Context.handlers := hs\<rparr>
                   in (None, mem',
                       if len (Context.handlers ctx) > 0 then run_handler call mem' ctx 0 w
                       else w))))"

text \<open>
  \<^verbatim>\<open>messageHandler\<close>. The result is the panic, if any, and the engine, the memory and
  the world after the call. The two tests for \<^verbatim>\<open>"MegoInitialize"\<close> are the \<^verbatim>\<open>if\<close> of
  line 223 and the first case of the switch; the case \<^verbatim>\<open>"MegoSubscribe"\<close> has an empty
  body, and a Go case does not fall through, so control goes on to the lookup of the
  method as it does for every other name.
\<close>

definition messageHandler ::
  "'v Codec \<Rightarrow> (nat \<Rightarrow> nat \<Rightarrow> nat) \<Rightarrow>
   ('h \<Rightarrow> ('v, 'h) Context \<Rightarrow> 'u World \<Rightarrow> 'u World \<times> bool) \<Rightarrow> ('v, 'h) Engine \<Rightarrow>
   melody_Session \<Rightarrow> bytes \<Rightarrow> 'h Memory \<Rightarrow> 'u World \<Rightarrow>
   panic option \<times> ('v, 'h) Engine \<times> 'h Memory \<times> 'u World" where
  "messageHandler cd grow call e s msg mem w =
     (case Unmarshal_Request cd msg of
        Inl err \<Rightarrow>
          (None, e, mem,
           WriteBinary (conn s)
             (Marshal cd \<lparr>Error = \<lparr>Code = StatusInvalid, Message = err\<rparr>,
                         Event = [], Result = None\<rparr>) w)
      | Inr req \<Rightarrow>
          (case store s ''ID'' of
             None \<Rightarrow> (None, e, mem, w)
           | Some uid \<Rightarrow>
               (case Engine.Sessions e uid of
                  None \<Rightarrow> (None, e, mem, w)
                | Some sess \<Rightarrow>
                    if Request.Method req = ''MegoInitialize''
                    then (None, initialize cd e uid sess req, mem, w)
                    else if Request.Method req = ''MegoInitialize''
                    then (None, initialize cd e uid sess req, mem, w)
                    else if Request.Method req = ''MegoSubscribe''
                    then (case dispatch grow call e s sess req mem w of
                            (p, mem', w') \<Rightarrow> (p, e, mem', w'))
                    else (case dispatch grow call e s sess req mem w of
                            (p, mem', w') \<Rightarrow> (p, e, mem', w')))))"

subsection \<open>Events\<close>

text \<open>
  Modelled from the spec: the method \<^verbatim>\<open>write\<close> of \<^verbatim>\<open>Session\<close> is not in mego.go
  (it is \<open>Session_write\<close> here). It encodes the response and delivers it over the
  session's connection.
\<close>

definition Session_write :: "'v Codec \<Rightarrow> 'v Session \<Rightarrow> 'v Response \<Rightarrow> 'u World \<Rightarrow> 'u World" where
  "Session_write cd v resp w = WriteBinary (Session.websocket v) (Marshal cd resp) w"

text \<open>
  \<^verbatim>\<open>Emit\<close>. Line 334 of the file is the text \<^verbatim>\<open>if ch == ""\<close> with no block after it;
  no statement of the function broadcasts to several channels, and the model has
  nothing for that line. \<^verbatim>\<open>firstErr\<close> is never assigned, so a delivery returns nil.
\<close>

definition Emit ::
  "'v Codec \<Rightarrow> ('v, 'h) Engine \<Rightarrow> string \<Rightarrow> string \<Rightarrow> 'v \<Rightarrow> 'u World \<Rightarrow> error option \<times> 'u World" where
  "Emit cd e event channel result w =
     (case Events e event of
        None \<Rightarrow> (Some ErrEventNotFound, w)
      | Some ev \<Rightarrow>
          (case Channels ev channel of
             None \<Rightarrow> (Some ErrChannelNotFound, w)
           | Some ch \<Rightarrow>
               (None, fold (\<lambda>v. Session_write cd v \<lparr>Error = \<lparr>Code = 0, Message = []\<rparr>,
                                            Event = event, Result = Some result\<rparr>)
                        (Channel.Sessions ch) w)))"

definition EmitMultiple ::
  "('v, 'h) Engine \<Rightarrow> string \<Rightarrow> 'v \<Rightarrow> 'v Session list \<Rightarrow> error option" where
  "EmitMultiple e event result sessions = None"

definition EmitFilter ::
  "('v, 'h) Engine \<Rightarrow> string \<Rightarrow> 'v \<Rightarrow> ('v Session \<Rightarrow> bool) \<Rightarrow> error option" where
  "EmitFilter e event payload keep = None"

subsection \<open>Chunked upload\<close>

text \<open>
  Modelled from the spec: no function of mego.go receives a chunk (\<^verbatim>\<open>ReceiveWith\<close>
  stores the processor and nothing more), and nothing in it computes a limit. From
  the spec: the effective limit is the method's override if set, else the engine
  default. The limits are Go ints; an override counts as set when the method has
  options and the field is not the zero value a struct literal leaves, and an engine
  without options has the zero defaults.
\<close>

definition effective :: "int option \<Rightarrow> int option \<Rightarrow> int" where
  "effective override dflt =
     (case override of
        Some n \<Rightarrow> if n \<noteq> 0 then n else (case dflt of Some d \<Rightarrow> d | None \<Rightarrow> 0)
      | None \<Rightarrow> (case dflt of Some d \<Rightarrow> d | None \<Rightarrow> 0))"

definition effective_MaxChunkSize :: "('v, 'h) Engine \<Rightarrow> 'h Method \<Rightarrow> int" where
  "effective_MaxChunkSize e m =
     effective (map_option MethodOption.MaxChunkSize (Method.Option m))
               (map_option EngineOption.MaxChunkSize (Engine.Option e))"

definition effective_MaxFileSize :: "('v, 'h) Engine \<Rightarrow> 'h Method \<Rightarrow> int" where
  "effective_MaxFileSize e m =
     effective (map_option MethodOption.MaxFileSize (Method.Option m))
               (map_option EngineOption.MaxFileSize (Engine.Option e))"

text \<open>
  Modelled from the spec: the upload state machine of the spec's section 4.4, which is
  not in mego.go. An in-flight upload tracks the bytes received so far. What arrives is
  a chunk, with or without the final-chunk marker, or the signal to terminate. The
  answer is a status code, or none when a completed upload goes on to the method's
  handler chain, and the upload that is still in flight, if any. The rules, per
  chunk: one that exceeds the effective chunk ceiling, or would take the running
  total over the effective file ceiling, is rejected with \<open>StatusFileTooLarge\<close> (the
  spec has an oversized chunk always answered so, hence these tests come first); a
  zero-length chunk is rejected with \<open>StatusFileEmpty\<close>; a chunk that fits goes to the
  processor, whose success advances the total (\<open>StatusFileNext\<close>, or completion on the
  final chunk) and whose failure leaves it (\<open>StatusFileRetry\<close>); termination answers
  \<open>StatusFileAbort\<close> and discards the upload.
\<close>

record Upload =
  received :: int

datatype chunk_message = Chunk bytes bool | Terminate

fun receive_chunk ::
  "('v, 'h) Engine \<Rightarrow> 'h Method \<Rightarrow> ChunkProcessor \<Rightarrow> Upload \<Rightarrow> chunk_message \<Rightarrow>
   int option \<times> Upload option" where
  "receive_chunk e m processor up Terminate = (Some StatusFileAbort, None)"
| "receive_chunk e m processor up (Chunk chunk final) =
     (if int (length chunk) > effective_MaxChunkSize e m then (Some StatusFileTooLarge, Some up)
      else if received up + int (length chunk) > effective_MaxFileSize e m
      then (Some StatusFileTooLarge, Some up)
      else if length chunk = 0 then (Some StatusFileEmpty, Some up)
      else if processor chunk
      then (if final then (None, None)
            else (Some StatusFileNext, Some (up\<lparr>received := received up + int (length chunk)\<rparr>)))
      else (Some StatusFileRetry, Some up))"

subsection \<open>Concrete inputs\<close>

text \<open>
  A small codec, a growth policy, handlers that leave a trace, and a connected
  session, for the theorems that run the engine on a concrete input. A frame is a tag
  byte and the parameters: the tag selects the method name, an empty frame does not
  decode. A parameter payload of two bytes decodes into a map with one key. Handlers
  are named by strings; running one appends its name to the user's state.
\<close>

definition demo_codec :: "int Codec" where
  "demo_codec =
     \<lparr>Unmarshal_Request =
        (\<lambda>msg. case msg of
           [] \<Rightarrow> Inl ''EOF''
         | t # ps \<Rightarrow>
             Inr \<lparr>Request.Method =
                    (if t = 0 then ''MegoInitialize'' else if t = 1 then ''MegoSubscribe''
                     else if t = 2 then ''Sum'' else if t = 4 then ''Max'' else ''Ghost''),
                  ID = 7, Params = ps\<rparr>),
      Unmarshal_Keys =
        (\<lambda>ps. case ps of
           [k, v] \<Rightarrow> Inr [(if k = 0 then ''a'' else ''b'') \<mapsto> uint v]
         | _ \<Rightarrow> Inl ''not a map''),
      Marshal = (\<lambda>r. [word_of_int (Code (Error r))])\<rparr>"

text \<open>
  The growth of Go's runtime for short slices: the capacity doubles, or is the length
  needed when that is more.
\<close>

definition go_grow :: "nat \<Rightarrow> nat \<Rightarrow> nat" where
  "go_grow c n = (if 2 * c < n then n else 2 * c)"

definition call_all ::
  "string \<Rightarrow> (int, string) Context \<Rightarrow> string list World \<Rightarrow> string list World \<times> bool" where
  "call_all h ctx w = (w\<lparr>user := user w @ [h]\<rparr>, True)"

definition call_B_stops ::
  "string \<Rightarrow> (int, string) Context \<Rightarrow> string list World \<Rightarrow> string list World \<times> bool" where
  "call_B_stops h ctx w = (w\<lparr>user := user w @ [h]\<rparr>, h \<noteq> ''B'')"

text \<open>
  A handler that keeps the context it was given, for work it will finish later, and
  does not advance now.
\<close>

definition call_keeps ::
  "string \<Rightarrow> (int, string) Context \<Rightarrow> (int, string) Context list World \<Rightarrow>
   (int, string) Context list World \<times> bool" where
  "call_keeps h ctx w = (w\<lparr>user := user w @ [ctx]\<rparr>, False)"

definition demo_world :: "string list World" where
  "demo_world = \<lparr>written = [], user = []\<rparr>"

definition demo_memory :: "string Memory" where
  "demo_memory = []"

text \<open>Connection 1 after \<^verbatim>\<open>connectHandler\<close> ran for it with the identifier \<^verbatim>\<open>u1\<close>.\<close>

definition demo_conn :: melody_Session where
  "demo_conn = \<lparr>conn = 1, Request = ''/'', store = [''ID'' \<mapsto> ''u1'']\<rparr>"

definition demo_session :: "int Session" where
  "demo_session = \<lparr>Session.ID = ''u1'', websocket = 1, Keys = Map.empty\<rparr>"

text \<open>The engine after \<^verbatim>\<open>New\<close> and that connect.\<close>

definition demo_engine :: "(int, string) Engine" where
  "demo_engine = fst (connectHandler New \<lparr>conn = 1, Request = ''/'', store = Map.empty\<rparr> ''u1'')"

text \<open>
  An application, and the memory after its set-up: the middleware \<^verbatim>\<open>A\<close>, \<^verbatim>\<open>B\<close> and
  \<^verbatim>\<open>X\<close> is registered by three calls of \<^verbatim>\<open>Use\<close>, which leaves the engine's slice with
  length 3 and capacity 4; the method \<^verbatim>\<open>Sum\<close> has the handler \<^verbatim>\<open>C\<close> and the method
  \<^verbatim>\<open>Max\<close> the handler \<^verbatim>\<open>D\<close>. \<open>demo_ctx\<close> is the context \<^verbatim>\<open>messageHandler\<close> builds for
  a request for \<^verbatim>\<open>Sum\<close> on connection 1, and \<open>demo_ctx_Max\<close> the one for \<^verbatim>\<open>Max\<close>.
\<close>

definition demo_app :: "(int, string) Engine \<times> string Memory" where
  "demo_app =
     (case Use go_grow demo_engine [''A''] demo_memory of
        (e1, m1) \<Rightarrow>
          (case Use go_grow e1 [''B''] m1 of
             (e2, m2) \<Rightarrow>
               (case Use go_grow e2 [''X''] m2 of
                  (e3, m3) \<Rightarrow>
                    (snd (Register (snd (Register e3 ''Sum'' [''C''])) ''Max'' [''D'']), m3))))"

definition demo_ctx :: "(int, string) Context" where
  "demo_ctx =
     \<lparr>Context.Session = demo_session,
      Method = \<lparr>Method.Name = ''Sum'', Handlers = [''C''], Processor = None, Option = None\<rparr>,
      ID = 7, Request = ''/'', data = [], handlers = \<lparr>ptr = 2, len = 4, cap = 4\<rparr>\<rparr>"

definition demo_ctx_Max :: "(int, string) Context" where
  "demo_ctx_Max =
     \<lparr>Context.Session = demo_session,
      Method = \<lparr>Method.Name = ''Max'', Handlers = [''D''], Processor = None, Option = None\<rparr>,
      ID = 7, Request = ''/'', data = [], handlers = \<lparr>ptr = 2, len = 4, cap = 4\<rparr>\<rparr>"

text \<open>The engine after the session of connection 1 was initialized with the key \<^verbatim>\<open>a\<close>.\<close>

definition demo_engine_a :: "(int, string) Engine" where
  "demo_engine_a =
     fst (snd (messageHandler demo_codec go_grow call_all demo_engine demo_conn [0, 0, 1]
                 demo_memory demo_world))"

text \<open>
  An engine whose event \<^verbatim>\<open>chat\<close> has two channels: sessions \<^verbatim>\<open>u1\<close> and \<^verbatim>\<open>u2\<close> are
  subscribed to \<^verbatim>\<open>room1\<close>, and \<^verbatim>\<open>u2\<close> to \<^verbatim>\<open>room2\<close> as well.
\<close>

definition demo_chat :: "(int, string) Engine" where
  "demo_chat =
     (let s1 = \<lparr>Session.ID = ''u1'', websocket = 1, Keys = Map.empty\<rparr>;
          s2 = \<lparr>Session.ID = ''u2'', websocket = 2, Keys = Map.empty\<rparr>;
          e = Event New ''chat''
      in e\<lparr>Events := (Events e)(''chat'' \<mapsto>
             \<lparr>Event.Name = ''chat'',
              Channels = [''room1'' \<mapsto> \<lparr>Channel.Name = ''room1'', Sessions = [s1, s2]\<rparr>,
                          ''room2'' \<mapsto> \<lparr>Channel.Name = ''room2'', Sessions = [s2]\<rparr>]\<rparr>)\<rparr>)"

text \<open>
  An engine with a chunk ceiling of 4 bytes and a file ceiling of 10, and an upload
  method that overrides the chunk ceiling with 2.
\<close>

definition demo_limits :: "(int, string) Engine" where
  "demo_limits =
     New\<lparr>Engine.Option := Some \<lparr>EngineOption.MaxSize = 0, MaxChunkSize = 4, MaxFileSize = 10,
                                  MaxSessions = 0, CheckInterval = 0\<rparr>\<rparr>"

definition demo_upload_method :: "string Method" where
  "demo_upload_method =
     (fst (Receive (demo_limits :: (int, string) Engine) ''Upload'' [''Save'']))
       \<lparr>Method.Option := Some \<lparr>MethodOption.MaxSize = 0, MaxChunkSize = 2, MaxFileSize = 0\<rparr>\<rparr>"

section \<open>Properties\<close>

lemma demo_engine_session: "Engine.Sessions demo_engine ''u1'' = Some demo_session"
  by (simp add: demo_engine_def connectHandler_def New_def demo_session_def)

lemma demo_engine_a_session:
  "Engine.Sessions demo_engine_a ''u1'' = Some (demo_session\<lparr>Keys := [''a'' \<mapsto> 1]\<rparr>)"
  by (simp add: demo_engine_a_def messageHandler_def initialize_def demo_codec_def
      demo_conn_def demo_engine_session)

lemma demo_app_eq:
  "demo_app =
     (demo_engine\<lparr>Engine.handlers := \<lparr>ptr = 2, len = 3, cap = 4\<rparr>,
        Methods := [''Sum'' \<mapsto> \<lparr>Method.Name = ''Sum'', Handlers = [''C''], Processor = None,
                                  Option = None\<rparr>,
                    ''Max'' \<mapsto> \<lparr>Method.Name = ''Max'', Handlers = [''D''], Processor = None,
                                  Option = None\<rparr>]\<rparr>,
      [[''A''], [''A'', ''B''], [''A'', ''B'', ''X'']])"
  by (simp add: demo_app_def Use_def append_slice_def Register_def Let_def go_grow_def
      demo_memory_def demo_engine_def connectHandler_def New_def nil_slice_def elems_def
      array_at_def)

subsection \<open>Construction\<close>

text \<open>
  C10. \<^verbatim>\<open>New()\<close> and \<^verbatim>\<open>Default()\<close> return the same engine: the session, event and
  method maps are empty, the slice of the global middleware is nil, with no element
  in any memory, and there is no no-method chain. In particular the engine of
  \<^verbatim>\<open>Default\<close> has no middleware, although its comment announces \<^verbatim>\<open>Recovery\<close> and
  \<^verbatim>\<open>Logger\<close>.
\<close>

theorem New_Default_identical:
  "(New :: ('v, 'h) Engine) = Default \<and>
   Engine.Sessions (Default :: ('v, 'h) Engine) = Map.empty \<and>
   Events (Default :: ('v, 'h) Engine) = Map.empty \<and>
   Methods (Default :: ('v, 'h) Engine) = Map.empty \<and>
   Engine.handlers (Default :: ('v, 'h) Engine) = nil_slice \<and>
   elems (mem :: 'h Memory) (Engine.handlers (Default :: ('v, 'h) Engine)) = [] \<and>
   noMethod (Default :: ('v, 'h) Engine) = []"
  by (simp add: New_def Default_def nil_slice_def elems_def)

subsection \<open>Connections\<close>

text \<open>
  C6. The claim is that after every sequence of connects and disconnects \<^verbatim>\<open>Len\<close> is
  the number of open connections. \<^verbatim>\<open>Run\<close> registers no handler for disconnects and
  no statement of the file deletes from \<^verbatim>\<open>Sessions\<close>: after connection 1 opens and
  closes, no connection is open and \<^verbatim>\<open>Len\<close> is 1.
\<close>

theorem sessions_outlive_connections:
  "connections (notify (notify (Run (New :: (int, string) Engine)) (Connect 1 ''/'' ''u1''))
      (Disconnect 1)) = [] \<and>
   Len (engine (notify (notify (Run (New :: (int, string) Engine)) (Connect 1 ''/'' ''u1''))
      (Disconnect 1))) = 1"
  by (simp add: Run_def New_def connectHandler_def Len_def)

subsection \<open>Frames that do not decode\<close>

text \<open>
  C8. When the bytes of a frame do not decode into a request, \<^verbatim>\<open>messageHandler\<close>
  writes one response to the connection the frame came from, with the code
  \<^verbatim>\<open>StatusInvalid\<close> and the decoder's message, and changes nothing in the engine or
  in the memory. No session is looked up and no method resolved: the world after the
  call is the same for every engine, every memory, every behaviour of the handlers
  and every content of the connection's store.
\<close>

theorem decode_failure_invalid:
  "Unmarshal_Request cd msg = Inl err \<Longrightarrow>
   messageHandler cd grow call e s msg mem w =
     (None, e, mem, w\<lparr>written := written w @
        [(conn s, Marshal cd \<lparr>Error = \<lparr>Code = StatusInvalid, Message = err\<rparr>,
                              Event = [], Result = None\<rparr>)]\<rparr>) \<and>
   snd (snd (snd (messageHandler cd grow call e s msg mem w))) =
     snd (snd (snd (messageHandler cd grow' call' e' (s\<lparr>store := st\<rparr>) msg mem' w)))"
  by (simp add: messageHandler_def WriteBinary_def)

theorem decode_failure_invalid_witness:
  "Unmarshal_Request demo_codec [] = Inl ''EOF'' \<and>
   messageHandler demo_codec go_grow call_all demo_engine demo_conn [] demo_memory demo_world =
     (None, demo_engine, demo_memory, demo_world\<lparr>written :=
        [(1, Marshal demo_codec \<lparr>Error = \<lparr>Code = 54, Message = ''EOF''\<rparr>,
                                 Event = [], Result = None\<rparr>)]\<rparr>) \<and>
   snd (snd (snd (messageHandler demo_codec go_grow call_all demo_engine demo_conn []
                    demo_memory demo_world))) =
     snd (snd (snd (messageHandler demo_codec go_grow call_B_stops (fst demo_app)
                      (demo_conn\<lparr>store := Map.empty\<rparr>) [] (snd demo_app) demo_world)))"
proof -
  have h: "Unmarshal_Request demo_codec [] = Inl ''EOF''"
    by (simp add: demo_codec_def)
  note t = decode_failure_invalid
    [OF h, of go_grow call_all demo_engine demo_conn demo_memory demo_world go_grow
      call_B_stops "fst demo_app" Map.empty "snd demo_app"]
  have a: "messageHandler demo_codec go_grow call_all demo_engine demo_conn [] demo_memory
       demo_world =
     (None, demo_engine, demo_memory, demo_world\<lparr>written :=
        [(1, Marshal demo_codec \<lparr>Error = \<lparr>Code = 54, Message = ''EOF''\<rparr>,
                                 Event = [], Result = None\<rparr>)]\<rparr>)"
    using conjunct1 [OF t] by (simp add: demo_conn_def demo_world_def StatusInvalid_def)
  from h a conjunct2 [OF t] show ?thesis by (intro conjI)
qed

subsection \<open>Session initialization\<close>

text \<open>
  C2, as the code has it. A request that decodes with the method name
  \<^verbatim>\<open>MegoInitialize\<close>, on a connection whose session is registered, never reaches the
  method registry: when its parameters decode into a map, the session's \<^verbatim>\<open>Keys\<close>
  become that map, and when they do not, the engine is unchanged. In both cases no
  handler runs and nothing is written: the memory and the world are as before,
  whatever the handlers would do.
\<close>

theorem initialize_replaces_Keys:
  assumes "Unmarshal_Request cd msg = Inr req"
    and "Request.Method req = ''MegoInitialize''"
    and "store s ''ID'' = Some uid"
    and "Engine.Sessions e uid = Some sess"
  shows "messageHandler cd grow call e s msg mem w =
     (None,
      (case Unmarshal_Keys cd (Params req) of
         Inr keys \<Rightarrow> e\<lparr>Engine.Sessions := (Engine.Sessions e)(uid \<mapsto> sess\<lparr>Keys := keys\<rparr>)\<rparr>
       | Inl err \<Rightarrow> e),
      mem, w)"
  using assms by (simp add: messageHandler_def initialize_def)

theorem initialize_replaces_Keys_witness:
  "messageHandler demo_codec go_grow call_all demo_engine demo_conn [0, 0, 1] demo_memory
       demo_world =
     (None,
      demo_engine\<lparr>Engine.Sessions := (Engine.Sessions demo_engine)
         (''u1'' \<mapsto> demo_session\<lparr>Keys := [''a'' \<mapsto> 1]\<rparr>)\<rparr>,
      demo_memory, demo_world) \<and>
   messageHandler demo_codec go_grow call_all demo_engine demo_conn [0, 9] demo_memory
       demo_world =
     (None, demo_engine, demo_memory, demo_world)"
proof -
  have r1: "Unmarshal_Request demo_codec [0, 0, 1] =
      Inr \<lparr>Request.Method = ''MegoInitialize'', ID = 7, Params = [0, 1]\<rparr>"
    by (simp add: demo_codec_def)
  have r2: "Unmarshal_Request demo_codec [0, 9] =
      Inr \<lparr>Request.Method = ''MegoInitialize'', ID = 7, Params = [9]\<rparr>"
    by (simp add: demo_codec_def)
  have i: "store demo_conn ''ID'' = Some ''u1''"
    by (simp add: demo_conn_def)
  have k1: "Unmarshal_Keys demo_codec [0, 1] = Inr [''a'' \<mapsto> 1]"
    by (simp add: demo_codec_def)
  have k2: "Unmarshal_Keys demo_codec [9] = Inl ''not a map''"
    by (simp add: demo_codec_def)
  from initialize_replaces_Keys [OF r1 _ i demo_engine_session, of go_grow call_all
      demo_memory demo_world]
    initialize_replaces_Keys [OF r2 _ i demo_engine_session, of go_grow call_all
      demo_memory demo_world]
  show ?thesis by (simp add: k1 k2)
qed

text \<open>
  The keys are not merged. The session of connection 1 holds the key \<^verbatim>\<open>a\<close>; a second
  initialization whose payload names only \<^verbatim>\<open>b\<close> leaves it with \<^verbatim>\<open>b\<close> alone, where a
  merge would have kept \<^verbatim>\<open>a\<close>.
\<close>

theorem initialize_merge_counterexample:
  "Engine.Sessions demo_engine_a ''u1'' = Some (demo_session\<lparr>Keys := [''a'' \<mapsto> 1]\<rparr>) \<and>
   Unmarshal_Request demo_codec [0, 1, 2] =
     Inr \<lparr>Request.Method = ''MegoInitialize'', ID = 7, Params = [1, 2]\<rparr> \<and>
   Unmarshal_Keys demo_codec [1, 2] = Inr [''b'' \<mapsto> 2] \<and>
   messageHandler demo_codec go_grow call_all demo_engine_a demo_conn [0, 1, 2] demo_memory
       demo_world =
     (None,
      demo_engine_a\<lparr>Engine.Sessions := (Engine.Sessions demo_engine_a)
         (''u1'' \<mapsto> demo_session\<lparr>Keys := [''b'' \<mapsto> 2]\<rparr>)\<rparr>,
      demo_memory, demo_world) \<and>
   ([''b'' \<mapsto> 2] :: string \<rightharpoonup> int) ''a'' = None \<and>
   (([''a'' \<mapsto> 1] ++ [''b'' \<mapsto> 2]) :: string \<rightharpoonup> int) ''a'' = Some 1"
  by (simp add: demo_engine_a_session messageHandler_def initialize_def demo_codec_def
      demo_conn_def)

subsection \<open>The handler chain\<close>

text \<open>
  What \<^verbatim>\<open>append\<close> returns has the elements of the slice it was given, followed by
  the new ones, when read in the memory it leaves; and it is well formed there.
\<close>

lemma append_slice_elems:
  assumes wf: "wf_slice mem s"
    and ap: "append_slice grow mem s xs = (s', mem')"
  shows "elems mem' s' = elems mem s @ xs \<and> wf_slice mem' s'"
proof (cases "len s + length xs \<le> cap s")
  case False
  with ap have s': "s' = \<lparr>ptr = length mem, len = len s + length xs,
        cap = max (len s + length xs) (grow (cap s) (len s + length xs))\<rparr>"
    and mem': "mem' = mem @ [elems mem s @ xs]"
    by (simp_all add: append_slice_def Let_def)
  have l: "length (elems mem s) = len s"
    using wf by (simp add: wf_slice_def elems_def)
  show ?thesis
    using l by (simp add: s' mem' elems_def array_at_def wf_slice_def)
next
  case True
  let ?old = "array_at mem (ptr s)"
  let ?new = "take (len s) ?old @ xs @ drop (len s + length xs) ?old"
  from True ap have s': "s' = s\<lparr>len := len s + length xs\<rparr>"
    and mem': "mem' = mem[ptr s := ?new]"
    by (simp_all add: append_slice_def Let_def)
  have l: "len s \<le> length ?old"
    using wf by (simp add: wf_slice_def)
  show ?thesis
  proof (cases "ptr s < length mem")
    case True
    then have a: "array_at mem' (ptr s) = ?new"
      by (simp add: mem' array_at_def)
    have t: "take (len s + length xs) ?new = take (len s) ?old @ xs"
      using l by simp
    have f: "len s' = len s + length xs" "ptr s' = ptr s" "cap s' = cap s"
      by (simp_all add: s')
    have e: "elems mem' s' = elems mem s @ xs"
      by (simp only: elems_def f a t)
    have n: "len s + length xs \<le> length ?new"
      using l by simp
    have p: "ptr s < length mem'"
      using True by (simp add: mem')
    have w: "wf_slice mem' s'"
      unfolding wf_slice_def using \<open>len s + length xs \<le> cap s\<close> n p
      by (simp only: f a) simp
    from e w show ?thesis by simp
  next
    case False
    with wf have c: "cap s = 0" by (simp add: wf_slice_def)
    with \<open>len s + length xs \<le> cap s\<close> have z: "len s = 0" "xs = []" by simp_all
    show ?thesis
      using wf c z by (simp add: s' mem' elems_def wf_slice_def)
  qed
qed

text \<open>
  Two facts about running a chain from a cursor, in a memory that does not change
  meanwhile. When every handler of the chain advances, the handlers from the cursor
  to the end run, each once, in the order of the chain. When the handlers before
  \<open>b\<close> advance and \<open>b\<close> does not, the chain runs up to \<open>b\<close> and no handler after it.
\<close>

lemma run_handler_all_advance:
  "(\<forall>h\<in>set (elems mem (Context.handlers ctx)). \<forall>w'. snd (call h ctx w')) \<Longrightarrow>
   run_handler call mem ctx i w =
     fold (\<lambda>h w'. fst (call h ctx w')) (drop i (elems mem (Context.handlers ctx))) w"
proof (induction call mem ctx i w rule: run_handler.induct)
  case (1 call mem ctx i w)
  let ?hs = "elems mem (Context.handlers ctx)"
  show ?case
  proof (cases "i < length ?hs")
    case False
    then show ?thesis by (simp add: run_handler.simps)
  next
    case True
    let ?h = "?hs ! i"
    obtain w1 adv where c: "call ?h ctx w = (w1, adv)" by (cases "call ?h ctx w")
    have "?h \<in> set ?hs" using True by simp
    with "1.prems" have "snd (call ?h ctx w)" by blast
    with c have adv: "adv" by simp
    from "1.IH" [OF True c [symmetric] adv "1.prems"]
    have ih: "run_handler call mem ctx (Suc i) w1 =
      fold (\<lambda>h w'. fst (call h ctx w')) (drop (Suc i) ?hs) w1" .
    have d: "drop i ?hs = ?h # drop (Suc i) ?hs"
      using True by (simp add: Cons_nth_drop_Suc)
    have "run_handler call mem ctx i w = run_handler call mem ctx (Suc i) w1"
      using True c adv by (subst run_handler.simps) simp
    also note ih
    also have "fold (\<lambda>h w'. fst (call h ctx w')) (drop (Suc i) ?hs) w1 =
      fold (\<lambda>h w'. fst (call h ctx w')) (drop i ?hs) w"
      by (subst d) (simp add: c)
    finally show ?thesis .
  qed
qed

lemma run_handler_stops:
  "elems mem (Context.handlers ctx) = pre @ b # post \<Longrightarrow>
   (\<forall>h\<in>set pre. \<forall>w'. snd (call h ctx w')) \<Longrightarrow>
   (\<forall>w'. \<not> snd (call b ctx w')) \<Longrightarrow>
   i \<le> length pre \<Longrightarrow>
   run_handler call mem ctx i w = fold (\<lambda>h w'. fst (call h ctx w')) (drop i (pre @ [b])) w"
proof (induction call mem ctx i w rule: run_handler.induct)
  case (1 call mem ctx i w)
  let ?hs = "elems mem (Context.handlers ctx)"
  let ?h = "?hs ! i"
  have lt: "i < length ?hs" using "1.prems"(1,4) by simp
  obtain w1 adv where c: "call ?h ctx w = (w1, adv)" by (cases "call ?h ctx w")
  show ?case
  proof (cases "i < length pre")
    case True
    then have h: "?h = pre ! i" using "1.prems"(1) by (simp add: nth_append)
    then have "?h \<in> set pre" using True by simp
    with "1.prems"(2) have "snd (call ?h ctx w)" by blast
    with c have adv: "adv" by simp
    from True have le: "Suc i \<le> length pre" by simp
    from "1.IH" [OF lt c [symmetric] adv "1.prems"(1,2,3) le]
    have ih: "run_handler call mem ctx (Suc i) w1 =
      fold (\<lambda>h w'. fst (call h ctx w')) (drop (Suc i) (pre @ [b])) w1" .
    have d: "drop i (pre @ [b]) = ?h # drop (Suc i) (pre @ [b])"
      using True h by (simp add: Cons_nth_drop_Suc [symmetric] nth_append)
    have "run_handler call mem ctx i w = run_handler call mem ctx (Suc i) w1"
      using lt c adv by (subst run_handler.simps) simp
    also note ih
    also have "fold (\<lambda>h w'. fst (call h ctx w')) (drop (Suc i) (pre @ [b])) w1 =
      fold (\<lambda>h w'. fst (call h ctx w')) (drop i (pre @ [b])) w"
      by (subst d) (simp add: c)
    finally show ?thesis .
  next
    case False
    with "1.prems"(4) have i: "i = length pre" by simp
    then have h: "?h = b" using "1.prems"(1) by simp
    with "1.prems"(3) c have adv: "\<not> adv" by (metis snd_conv)
    show ?thesis
      using lt c adv h i by (subst run_handler.simps) simp
  qed
qed

text \<open>
  One dispatch on its own. For a request that decodes, comes from a connection with
  a registered session and names a registered method, \<^verbatim>\<open>messageHandler\<close> appends the
  method's handlers to the engine's slice and runs the chain of the context from
  index 0; read in the memory right after the append, that chain is the engine's
  middleware followed by the method's handlers.
\<close>

lemma dispatch_chain_when_built:
  assumes "Unmarshal_Request cd msg = Inr req"
    and "store s ''ID'' = Some uid"
    and "Engine.Sessions e uid = Some sess"
    and "Request.Method req \<noteq> ''MegoInitialize''"
    and "Methods e (Request.Method req) = Some m"
    and wf: "wf_slice mem (Engine.handlers e)"
    and ap: "append_slice grow mem (Engine.handlers e) (Handlers m) = (hs, mem')"
    and ctx: "ctx = \<lparr>Context.Session = sess, Method = m, ID = Request.ID req,
                Request = melody_Session.Request s, data = Params req, handlers = hs\<rparr>"
  shows "messageHandler cd grow call e s msg mem w = (None, e, mem', run_handler call mem' ctx 0 w)"
    and "elems mem' (Context.handlers ctx) = elems mem (Engine.handlers e) @ Handlers m"
proof -
  from append_slice_elems [OF wf ap]
  have el: "elems mem' hs = elems mem (Engine.handlers e) @ Handlers m"
    and wf': "wf_slice mem' hs" by simp_all
  show "elems mem' (Context.handlers ctx) = elems mem (Engine.handlers e) @ Handlers m"
    using el ctx by simp
  have z: "len hs = 0 \<Longrightarrow> run_handler call mem' ctx 0 w = w"
    using ctx by (subst run_handler.simps) (simp add: elems_def)
  show "messageHandler cd grow call e s msg mem w =
      (None, e, mem', run_handler call mem' ctx 0 w)"
    using assms(1-5) ap ctx z
    by (simp add: messageHandler_def dispatch_def Let_def)
qed

text \<open>
  C3. The claim is that the chain of every dispatched request is the global
  middleware followed by the handlers of its own method. The chain is that when the
  context is built, but \<^verbatim>\<open>append(ctx.handlers, method.Handlers...)\<close> writes into the
  array of the engine's slice when it has spare capacity, and every context built so
  shares that array. After three calls of \<^verbatim>\<open>Use\<close> the engine's slice has length 3 and
  capacity 4. A request for \<^verbatim>\<open>Sum\<close> gets the chain \<^verbatim>\<open>A\<close>, \<^verbatim>\<open>B\<close>, \<^verbatim>\<open>X\<close>, \<^verbatim>\<open>C\<close>, and
  its first handler keeps the context. A request for \<^verbatim>\<open>Max\<close> is dispatched next, and
  the chain of the first context, which has not changed as a value, now reads \<^verbatim>\<open>A\<close>,
  \<^verbatim>\<open>B\<close>, \<^verbatim>\<open>X\<close>, \<^verbatim>\<open>D\<close>: the handler of \<^verbatim>\<open>Max\<close> has replaced the handler of \<^verbatim>\<open>Sum\<close>, and
  a first request that goes on from its second handler runs \<^verbatim>\<open>B\<close>, \<^verbatim>\<open>X\<close> and \<^verbatim>\<open>D\<close>.
\<close>

theorem later_dispatch_overwrites_chain:
  "Engine.handlers (fst demo_app) = \<lparr>ptr = 2, len = 3, cap = 4\<rparr> \<and>
   elems (snd demo_app) (Engine.handlers (fst demo_app)) = [''A'', ''B'', ''X''] \<and>
   map_option Handlers (Methods (fst demo_app) ''Sum'') = Some [''C''] \<and>
   map_option Handlers (Methods (fst demo_app) ''Max'') = Some [''D''] \<and>
   messageHandler demo_codec go_grow call_keeps (fst demo_app) demo_conn [2] (snd demo_app)
       \<lparr>written = [], user = []\<rparr> =
     (None, fst demo_app, [[''A''], [''A'', ''B''], [''A'', ''B'', ''X'', ''C'']],
      \<lparr>written = [], user = [demo_ctx]\<rparr>) \<and>
   elems [[''A''], [''A'', ''B''], [''A'', ''B'', ''X'', ''C'']] (Context.handlers demo_ctx) =
     [''A'', ''B'', ''X'', ''C''] \<and>
   messageHandler demo_codec go_grow call_keeps (fst demo_app) demo_conn [4]
       [[''A''], [''A'', ''B''], [''A'', ''B'', ''X'', ''C'']]
       \<lparr>written = [], user = [demo_ctx]\<rparr> =
     (None, fst demo_app, [[''A''], [''A'', ''B''], [''A'', ''B'', ''X'', ''D'']],
      \<lparr>written = [], user = [demo_ctx, demo_ctx_Max]\<rparr>) \<and>
   elems [[''A''], [''A'', ''B''], [''A'', ''B'', ''X'', ''D'']] (Context.handlers demo_ctx) =
     [''A'', ''B'', ''X'', ''D''] \<and>
   user (run_handler call_all [[''A''], [''A'', ''B''], [''A'', ''B'', ''X'', ''D'']] demo_ctx 1
           demo_world) = [''B'', ''X'', ''D'']"
proof -
  let ?mem = "[[''A''], [''A'', ''B''], [''A'', ''B'', ''X'', ''D'']]"
  have chain: "elems ?mem (Context.handlers demo_ctx) = [''A'', ''B'', ''X'', ''D'']"
    by (simp add: demo_ctx_def elems_def array_at_def)
  have adv: "\<forall>h\<in>set (elems ?mem (Context.handlers demo_ctx)).
      \<forall>w'. snd (call_all h demo_ctx w')"
    by (simp add: call_all_def)
  from run_handler_all_advance [of ?mem demo_ctx call_all 1 demo_world] adv
  have resumed: "user (run_handler call_all ?mem demo_ctx 1 demo_world) = [''B'', ''X'', ''D'']"
    by (simp add: chain call_all_def demo_world_def)
  have dispatched: "Engine.handlers (fst demo_app) = \<lparr>ptr = 2, len = 3, cap = 4\<rparr> \<and>
   elems (snd demo_app) (Engine.handlers (fst demo_app)) = [''A'', ''B'', ''X''] \<and>
   map_option Handlers (Methods (fst demo_app) ''Sum'') = Some [''C''] \<and>
   map_option Handlers (Methods (fst demo_app) ''Max'') = Some [''D''] \<and>
   messageHandler demo_codec go_grow call_keeps (fst demo_app) demo_conn [2] (snd demo_app)
       \<lparr>written = [], user = []\<rparr> =
     (None, fst demo_app, [[''A''], [''A'', ''B''], [''A'', ''B'', ''X'', ''C'']],
      \<lparr>written = [], user = [demo_ctx]\<rparr>) \<and>
   elems [[''A''], [''A'', ''B''], [''A'', ''B'', ''X'', ''C'']] (Context.handlers demo_ctx) =
     [''A'', ''B'', ''X'', ''C''] \<and>
   messageHandler demo_codec go_grow call_keeps (fst demo_app) demo_conn [4]
       [[''A''], [''A'', ''B''], [''A'', ''B'', ''X'', ''C'']]
       \<lparr>written = [], user = [demo_ctx]\<rparr> =
     (None, fst demo_app, ?mem, \<lparr>written = [], user = [demo_ctx, demo_ctx_Max]\<rparr>)"
    by (simp add: demo_app_eq messageHandler_def dispatch_def append_slice_def Let_def
        demo_codec_def demo_conn_def demo_engine_def connectHandler_def New_def
        run_handler.simps [of _ _ _ 0] call_keeps_def demo_ctx_def demo_ctx_Max_def
        demo_session_def elems_def array_at_def)
  from dispatched chain resumed show ?thesis by blast
qed

subsection \<open>Methods that are not registered\<close>

text \<open>
  C1. The claim is that a request for a method that is not registered runs the chain
  set with \<^verbatim>\<open>NoMethod\<close>. The branch of \<^verbatim>\<open>messageHandler\<close> for that case is empty and
  \<^verbatim>\<open>noMethod\<close> is never read: with the chain \<^verbatim>\<open>NotFound\<close> configured, a request for
  \<^verbatim>\<open>Ghost\<close> ends in a nil pointer dereference, no handler has run and nothing is
  written.
\<close>

theorem unregistered_method_panics:
  "noMethod (NoMethod demo_engine [''NotFound'']) = [''NotFound''] \<and>
   Methods (NoMethod demo_engine [''NotFound'']) ''Ghost'' = None \<and>
   Unmarshal_Request demo_codec [3] = Inr \<lparr>Request.Method = ''Ghost'', ID = 7, Params = []\<rparr> \<and>
   messageHandler demo_codec go_grow call_all (NoMethod demo_engine [''NotFound'']) demo_conn
       [3] demo_memory demo_world =
     (Some NilPointerDereference, NoMethod demo_engine [''NotFound''], demo_memory, demo_world)"
  by (simp add: NoMethod_def messageHandler_def dispatch_def demo_codec_def demo_conn_def
      demo_engine_def connectHandler_def New_def)

subsection \<open>Subscriptions\<close>

text \<open>
  C7. After \<^verbatim>\<open>HandleSubscribe\<close> was given a hook, a subscribe request (the method name
  \<^verbatim>\<open>MegoSubscribe\<close>) for which the hook answers false leaves the engine as it was, so
  the subscriber set of every channel is unchanged; and unless the application
  registered a method of its own under that name, nothing is written to any
  connection and the memory is as before. The file has no statement that adds a
  subscriber: \<^verbatim>\<open>HandleSubscribe\<close> returns the engine it was given, and the case for
  \<^verbatim>\<open>MegoSubscribe\<close> is empty, so the conclusion does not rest on the hook's answer. The
  request goes on to the method lookup, and on a registered session with no method of
  that name the call ends in the nil pointer dereference of every unregistered name.
\<close>

theorem subscribe_rejected_unchanged:
  assumes "\<not> hook event channel ctx"
    and "Unmarshal_Request cd msg = Inr req"
    and "Request.Method req = ''MegoSubscribe''"
  shows "fst (snd (messageHandler cd grow call (HandleSubscribe e hook) s msg mem w)) = e \<and>
     (Methods e ''MegoSubscribe'' = None \<longrightarrow>
        snd (snd (messageHandler cd grow call (HandleSubscribe e hook) s msg mem w)) =
          (mem, w)) \<and>
     (store s ''ID'' = Some uid \<and> Engine.Sessions e uid = Some sess \<and>
      Methods e ''MegoSubscribe'' = None \<longrightarrow>
        fst (messageHandler cd grow call (HandleSubscribe e hook) s msg mem w) =
          Some NilPointerDereference)"
  using assms(2,3)
  by (simp add: messageHandler_def HandleSubscribe_def dispatch_def Let_def
      split: option.split prod.split)

theorem subscribe_rejected_unchanged_witness:
  "\<not> (\<lambda>event channel (c :: (int, string) Context). False) ''chat'' ''room1'' demo_ctx \<and>
   Events (fst (snd (messageHandler demo_codec go_grow call_all
       (HandleSubscribe (Event demo_engine ''chat'') (\<lambda>event channel c. False))
       demo_conn [1] demo_memory demo_world))) = Events (Event demo_engine ''chat'') \<and>
   snd (snd (messageHandler demo_codec go_grow call_all
       (HandleSubscribe (Event demo_engine ''chat'') (\<lambda>event channel c. False))
       demo_conn [1] demo_memory demo_world)) = (demo_memory, demo_world) \<and>
   fst (messageHandler demo_codec go_grow call_all
       (HandleSubscribe (Event demo_engine ''chat'') (\<lambda>event channel c. False))
       demo_conn [1] demo_memory demo_world) = Some NilPointerDereference"
proof -
  have h: "\<not> (\<lambda>event channel (c :: (int, string) Context). False) ''chat'' ''room1'' demo_ctx"
    by simp
  have r: "Unmarshal_Request demo_codec [1] =
      Inr \<lparr>Request.Method = ''MegoSubscribe'', ID = 7, Params = []\<rparr>"
    by (simp add: demo_codec_def)
  have m: "Methods (Event demo_engine ''chat'') ''MegoSubscribe'' = None"
    by (simp add: Event_def demo_engine_def connectHandler_def New_def)
  have i: "store demo_conn ''ID'' = Some ''u1''"
    by (simp add: demo_conn_def)
  have u: "Engine.Sessions (Event demo_engine ''chat'') ''u1'' = Some demo_session"
    using demo_engine_session by (simp add: Event_def)
  from subscribe_rejected_unchanged [OF h r, of go_grow call_all "Event demo_engine ''chat''"
      demo_conn demo_memory demo_world "''u1''" demo_session] m h i u
  show ?thesis by simp
qed

subsection \<open>Emitting\<close>

text \<open>
  C5. When the event name is not in the engine's \<^verbatim>\<open>Events\<close>, \<^verbatim>\<open>Emit\<close> returns
  \<^verbatim>\<open>ErrEventNotFound\<close> whatever the channel and the payload are, and the world is as
  before: nothing is written to any session.
\<close>

theorem Emit_undeclared_event:
  "Events e event = None \<Longrightarrow> Emit cd e event channel result w = (Some ErrEventNotFound, w)"
  by (simp add: Emit_def)

theorem Emit_undeclared_event_witness:
  "Events (demo_engine :: (int, string) Engine) ''chat'' = None \<and>
   Emit demo_codec demo_engine ''chat'' ''room1'' 5 demo_world =
     (Some ErrEventNotFound, demo_world)"
proof -
  have h: "Events (demo_engine :: (int, string) Engine) ''chat'' = None"
    by (simp add: demo_engine_def connectHandler_def New_def)
  show ?thesis using h Emit_undeclared_event [OF h] by simp
qed

text \<open>
  C4. The claim is that \<^verbatim>\<open>Emit\<close> with the empty channel name delivers to every
  subscriber of the event, once each. \<^verbatim>\<open>Emit\<close> looks the empty name up like any
  other: the event \<^verbatim>\<open>chat\<close> has the channels \<^verbatim>\<open>room1\<close> and \<^verbatim>\<open>room2\<close> with subscribers,
  none of them is named by the empty string, and the call returns
  \<^verbatim>\<open>ErrChannelNotFound\<close> with nothing written.
\<close>

theorem Emit_empty_channel_not_broadcast:
  "map_option (\<lambda>ev. dom (Channels ev)) (Events demo_chat ''chat'') = Some {''room1'', ''room2''} \<and>
   Emit demo_codec demo_chat ''chat'' '''' 5 demo_world = (Some ErrChannelNotFound, demo_world)"
  by (auto simp add: demo_chat_def Emit_def Event_def New_def Let_def)

subsection \<open>Chunked upload\<close>

text \<open>
  C9. For an upload in flight, a chunk that is larger than the effective chunk
  ceiling, or that would take the running total over the effective file ceiling, is
  answered with \<^verbatim>\<open>StatusFileTooLarge\<close> and the upload, with its running total, is as
  before. The effective ceiling is the method's override when the method has options
  and the field is set, and the engine's default otherwise.
\<close>

theorem oversized_chunk_rejected:
  "int (length chunk) > effective_MaxChunkSize e m \<or>
   received up + int (length chunk) > effective_MaxFileSize e m \<Longrightarrow>
   receive_chunk e m processor up (Chunk chunk final) = (Some StatusFileTooLarge, Some up) \<and>
   effective_MaxChunkSize e m =
     (case Method.Option m of
        Some mo \<Rightarrow> if MethodOption.MaxChunkSize mo \<noteq> 0 then MethodOption.MaxChunkSize mo
                   else (case Engine.Option e of Some eo \<Rightarrow> EngineOption.MaxChunkSize eo | None \<Rightarrow> 0)
      | None \<Rightarrow> (case Engine.Option e of Some eo \<Rightarrow> EngineOption.MaxChunkSize eo | None \<Rightarrow> 0)) \<and>
   effective_MaxFileSize e m =
     (case Method.Option m of
        Some mo \<Rightarrow> if MethodOption.MaxFileSize mo \<noteq> 0 then MethodOption.MaxFileSize mo
                   else (case Engine.Option e of Some eo \<Rightarrow> EngineOption.MaxFileSize eo | None \<Rightarrow> 0)
      | None \<Rightarrow> (case Engine.Option e of Some eo \<Rightarrow> EngineOption.MaxFileSize eo | None \<Rightarrow> 0))"
  by (auto simp add: effective_MaxChunkSize_def effective_MaxFileSize_def effective_def
      split: option.splits)

theorem oversized_chunk_rejected_witness:
  "effective_MaxChunkSize demo_limits demo_upload_method = 2 \<and>
   effective_MaxFileSize demo_limits demo_upload_method = 10 \<and>
   receive_chunk demo_limits demo_upload_method DefaultChunkProcessor \<lparr>received = 0\<rparr>
       (Chunk [1, 2, 3] False) = (Some 72, Some \<lparr>received = 0\<rparr>) \<and>
   receive_chunk demo_limits demo_upload_method DefaultChunkProcessor \<lparr>received = 9\<rparr>
       (Chunk [1, 2] False) = (Some 72, Some \<lparr>received = 9\<rparr>) \<and>
   receive_chunk demo_limits demo_upload_method DefaultChunkProcessor \<lparr>received = 8\<rparr>
       (Chunk [1, 2] False) = (Some 10, Some \<lparr>received = 10\<rparr>)"
proof -
  have c: "effective_MaxChunkSize demo_limits demo_upload_method = 2"
    by (simp add: effective_MaxChunkSize_def effective_def demo_limits_def
        demo_upload_method_def New_def)
  have f: "effective_MaxFileSize demo_limits demo_upload_method = 10"
    by (simp add: effective_MaxFileSize_def effective_def demo_limits_def
        demo_upload_method_def New_def)
  have big: "int (length [1, 2, 3 :: 8 word]) > effective_MaxChunkSize demo_limits demo_upload_method
      \<or> received \<lparr>received = 0\<rparr> + int (length [1, 2, 3 :: 8 word]) >
        effective_MaxFileSize demo_limits demo_upload_method"
    by (simp add: c)
  have full: "int (length [1, 2 :: 8 word]) > effective_MaxChunkSize demo_limits demo_upload_method
      \<or> received \<lparr>received = 9\<rparr> + int (length [1, 2 :: 8 word]) >
        effective_MaxFileSize demo_limits demo_upload_method"
    by (simp add: c f)
  have ok: "receive_chunk demo_limits demo_upload_method DefaultChunkProcessor \<lparr>received = 8\<rparr>
       (Chunk [1, 2] False) = (Some 10, Some \<lparr>received = 10\<rparr>)"
    by (simp add: c f DefaultChunkProcessor_def StatusFileNext_def)
  from oversized_chunk_rejected [OF big, of DefaultChunkProcessor False, THEN conjunct1]
    oversized_chunk_rejected [OF full, of DefaultChunkProcessor False, THEN conjunct1]
    c f ok
  show ?thesis by (simp add: StatusFileTooLarge_def)
qed

end
